theory Spec2Isabelle
  imports Main "HOL-Library.AList"
begin

section \<open>Python values, kinds and errors\<close>

text \<open>
  The run-time values that reach the toolbelt functions of
  \<^verbatim>\<open>scrapling/engines/toolbelt/custom.py\<close>. \<open>PFunc n\<close> is a callable whose
  signature, as \<^verbatim>\<open>inspect.signature\<close> reads it, has \<open>n\<close> parameters; \<open>PBuiltin m\<close>
  is a built-in callable (\<^verbatim>\<open>min\<close>, say) whose signature \<^verbatim>\<open>inspect.signature\<close> cannot
  read, \<open>m\<close> being the message of the \<^verbatim>\<open>ValueError\<close> it raises when asked;
  \<open>PObject i\<close> is any other object that cannot be called (a storage backend, say), known
  by its identity only. A dictionary is the list of its items.
\<close>

datatype pyval =
    PNone
  | PBool bool
  | PInt int
  | PStr string
  | PList "pyval list"
  | PDict "(string \<times> pyval) list"
  | PFunc nat
  | PBuiltin string
  | PObject nat

text \<open>The classes a value can be tested against with \<^verbatim>\<open>isinstance\<close>.\<close>

datatype pytype =
    T_NoneType | T_bool | T_int | T_str | T_list | T_dict | T_function
  | T_builtin_function_or_method | T_object

text \<open>The exceptions the modelled code raises itself are \<^verbatim>\<open>TypeError\<close>s;
  \<^verbatim>\<open>inspect.signature\<close> raises a \<^verbatim>\<open>ValueError\<close> that nothing catches; every other
  exception comes out of a backend and is passed on unchanged.\<close>

datatype error = TypeError string | ValueError string | BackendError string

text \<open>A reference to an object: its identity (what \<^verbatim>\<open>is\<close> compares) and its value.\<close>

type_synonym pyref = "nat \<times> pyval"

fun type_of :: "pyval \<Rightarrow> pytype" where
  "type_of PNone = T_NoneType"
| "type_of (PBool _) = T_bool"
| "type_of (PInt _) = T_int"
| "type_of (PStr _) = T_str"
| "type_of (PList _) = T_list"
| "type_of (PDict _) = T_dict"
| "type_of (PFunc _) = T_function"
| "type_of (PBuiltin _) = T_builtin_function_or_method"
| "type_of (PObject _) = T_object"

text \<open>\<^verbatim>\<open>t.__name__\<close>\<close>

fun type_name :: "pytype \<Rightarrow> string" where
  "type_name T_NoneType = ''NoneType''"
| "type_name T_bool = ''bool''"
| "type_name T_int = ''int''"
| "type_name T_str = ''str''"
| "type_name T_list = ''list''"
| "type_name T_dict = ''dict''"
| "type_name T_function = ''function''"
| "type_name T_builtin_function_or_method = ''builtin_function_or_method''"
| "type_name T_object = ''object''"

text \<open>\<^verbatim>\<open>issubclass\<close>: every class derives from \<^verbatim>\<open>object\<close>, and \<^verbatim>\<open>bool\<close> from \<^verbatim>\<open>int\<close>.\<close>

definition issubclass :: "pytype \<Rightarrow> pytype \<Rightarrow> bool" where
  "issubclass a b \<longleftrightarrow> a = b \<or> b = T_object \<or> (a = T_bool \<and> b = T_int)"

definition isinstance :: "pyval \<Rightarrow> pytype \<Rightarrow> bool" where
  "isinstance v t \<longleftrightarrow> issubclass (type_of v) t"

text \<open>Truth value testing, as \<^verbatim>\<open>if x:\<close> and \<^verbatim>\<open>x or y\<close> do it.\<close>

fun truthy :: "pyval \<Rightarrow> bool" where
  "truthy PNone = False"
| "truthy (PBool b) = b"
| "truthy (PInt i) = (i \<noteq> 0)"
| "truthy (PStr s) = (s \<noteq> [])"
| "truthy (PList xs) = (xs \<noteq> [])"
| "truthy (PDict kvs) = (kvs \<noteq> [])"
| "truthy (PFunc _) = True"
| "truthy (PBuiltin _) = True"
| "truthy (PObject _) = True"

text \<open>\<^verbatim>\<open>x or y\<close>\<close>

definition py_or :: "pyval \<Rightarrow> pyval \<Rightarrow> pyval" where
  "py_or x y = (if truthy x then x else y)"

text \<open>\<^verbatim>\<open>sep.join(xs)\<close>\<close>

fun join :: "string \<Rightarrow> string list \<Rightarrow> string" where
  "join sep [] = []"
| "join sep [x] = x"
| "join sep (x # y # ys) = x @ sep @ join sep (y # ys)"

section \<open>Logging\<close>

datatype level = WARNING | ERROR

text \<open>The records handed to the \<^verbatim>\<open>logging\<close> module, oldest first.\<close>

type_synonym logger = "(level \<times> string) list"

definition logging_warning :: "string \<Rightarrow> logger \<Rightarrow> logger" where
  "logging_warning msg lg = lg @ [(WARNING, msg)]"

definition logging_error :: "string \<Rightarrow> logger \<Rightarrow> logger" where
  "logging_error msg lg = lg @ [(ERROR, msg)]"

section \<open>The type validator\<close>

text \<open>
  \<^verbatim>\<open>get_variable_name\<close> scans \<^verbatim>\<open>globals()\<close> and then \<^verbatim>\<open>locals()\<close> for a binding
  that \<^verbatim>\<open>is\<close> the variable. A scope lists its bindings in order, each a name and the
  identity of the object bound. The local scope of the function holds, when the list of
  scopes is built, the one binding \<^verbatim>\<open>var\<close>.
\<close>

type_synonym scope = "(string \<times> nat) list"

fun scan_scope :: "scope \<Rightarrow> nat \<Rightarrow> string option" where
  "scan_scope [] var = None"
| "scan_scope ((name, val) # rest) var = (if val = var then Some name else scan_scope rest var)"

definition get_variable_name :: "scope \<Rightarrow> nat \<Rightarrow> string option" where
  "get_variable_name globals var =
     (case scan_scope globals var of
        Some name \<Rightarrow> Some name
      | None \<Rightarrow> scan_scope [(''var'', var)] var)"

text \<open>\<^verbatim>\<open>a or b\<close> on optional strings: \<^verbatim>\<open>None\<close> and the empty string are false.\<close>

fun str_or :: "string option \<Rightarrow> string option \<Rightarrow> string option" where
  "str_or (Some s) b = (if s \<noteq> [] then Some s else b)"
| "str_or None b = b"

definition var_name_of :: "string option \<Rightarrow> scope \<Rightarrow> nat \<Rightarrow> string" where
  "var_name_of param_name globals var =
     (case str_or (str_or param_name (get_variable_name globals var)) (Some ''Unknown'') of
        Some n \<Rightarrow> n
      | None \<Rightarrow> [])"

definition none_msg :: "string \<Rightarrow> string" where
  \<open>none_msg var_name = ''Argument "'' @ var_name @ ''" cannot be None''\<close>

definition type_msg :: "string \<Rightarrow> pytype list \<Rightarrow> string" where
  \<open>type_msg var_name valid_types =
     ''Argument "'' @ var_name @ ''" must be of type '' @ join '' or '' (map type_name valid_types)\<close>

text \<open>
  \<^verbatim>\<open>check_type_validity(variable, valid_types, default_value, critical, param_name)\<close>.
  The module's global scope and the logger are the state the function reads and writes;
  the result is the new logger and either the exception raised or the value returned.
\<close>

definition check_type_validity ::
  "scope \<Rightarrow> pyref \<Rightarrow> pytype list option \<Rightarrow> pyref \<Rightarrow> bool \<Rightarrow> string option \<Rightarrow> logger
     \<Rightarrow> logger \<times> (error + pyref)" where
  "check_type_validity globals variable valid_types0 default_value critical param_name lg =
     (let var_name = var_name_of param_name globals (fst variable);
          valid_types = (case valid_types0 of None \<Rightarrow> [] | Some ts \<Rightarrow> ts)
      in if snd variable = PNone then
           (if T_NoneType \<in> set valid_types then (lg, Inr variable)
            else if critical then (lg, Inl (TypeError (none_msg var_name)))
            else (logging_error (''[Ignored] '' @ none_msg var_name) lg, Inr default_value))
         else if valid_types = [] then (lg, Inr variable)
         else if \<not> list_ex (isinstance (snd variable)) valid_types then
           (if critical then (lg, Inl (TypeError (type_msg var_name valid_types)))
            else (logging_error (''[Ignored] '' @ type_msg var_name valid_types) lg,
                  Inr default_value))
         else (lg, Inr variable))"

section \<open>The engine capability check\<close>

text \<open>
  A candidate engine: an object with an identity and the attributes that
  \<^verbatim>\<open>hasattr\<close> and \<^verbatim>\<open>getattr\<close> find on it.
\<close>

record pyobject =
  oid :: nat
  attrs :: "(string \<times> pyval) list"

text \<open>\<^verbatim>\<open>callable(f)\<close>\<close>

fun callable :: "pyval \<Rightarrow> bool" where
  "callable (PFunc _) = True"
| "callable (PBuiltin _) = True"
| "callable _ = False"

text \<open>
  \<^verbatim>\<open>len(inspect.signature(f).parameters)\<close>: the number of parameters when the
  signature can be read, the \<^verbatim>\<open>ValueError\<close> of \<^verbatim>\<open>inspect.signature\<close> when it
  cannot. Asked of something that is not callable, \<^verbatim>\<open>inspect.signature\<close> raises a
  \<^verbatim>\<open>TypeError\<close>; the check below never asks that.
\<close>

fun signature_parameters :: "pyval \<Rightarrow> error + nat" where
  "signature_parameters (PFunc n) = Inr n"
| "signature_parameters (PBuiltin m) = Inl (ValueError m)"
| "signature_parameters _ = Inl (TypeError ''not a callable object'')"

definition msg_no_arguments :: string where
  "msg_no_arguments =
     ''Engine class must have a callable method '' @ [CHR 0x27] @ ''fetch'' @ [CHR 0x27]
       @ '' with the first argument used for the url.''"

definition msg_not_callable :: string where
  "msg_not_callable =
     ''Invalid engine class! Engine class must have a callable method ''
       @ [CHR 0x27] @ ''fetch'' @ [CHR 0x27]"

definition msg_no_fetch :: string where
  "msg_no_fetch =
     ''Invalid engine class! Engine class must have the method ''
       @ [CHR 0x27] @ ''fetch'' @ [CHR 0x27]"

definition check_if_engine_usable :: "pyobject \<Rightarrow> error + pyobject" where
  "check_if_engine_usable engine =
     (case map_of (attrs engine) ''fetch'' of
        Some fetch_function \<Rightarrow>
          if callable fetch_function then
            (case signature_parameters fetch_function of
               Inl e \<Rightarrow> Inl e
             | Inr n \<Rightarrow>
                 if n > 0 then Inr engine
                 else Inl (TypeError msg_no_arguments))
          else Inl (TypeError msg_not_callable)
      | None \<Rightarrow> Inl (TypeError msg_no_fetch))"

section \<open>Status phrases\<close>

text \<open>\<^verbatim>\<open>StatusText._phrases\<close>, the read-only table of reason phrases.\<close>

definition phrases :: "(int \<times> string) list" where
  "phrases =
     [(100, ''Continue''),
      (101, ''Switching Protocols''),
      (102, ''Processing''),
      (103, ''Early Hints''),
      (200, ''OK''),
      (201, ''Created''),
      (202, ''Accepted''),
      (203, ''Non-Authoritative Information''),
      (204, ''No Content''),
      (205, ''Reset Content''),
      (206, ''Partial Content''),
      (207, ''Multi-Status''),
      (208, ''Already Reported''),
      (226, ''IM Used''),
      (300, ''Multiple Choices''),
      (301, ''Moved Permanently''),
      (302, ''Found''),
      (303, ''See Other''),
      (304, ''Not Modified''),
      (305, ''Use Proxy''),
      (307, ''Temporary Redirect''),
      (308, ''Permanent Redirect''),
      (400, ''Bad Request''),
      (401, ''Unauthorized''),
      (402, ''Payment Required''),
      (403, ''Forbidden''),
      (404, ''Not Found''),
      (405, ''Method Not Allowed''),
      (406, ''Not Acceptable''),
      (407, ''Proxy Authentication Required''),
      (408, ''Request Timeout''),
      (409, ''Conflict''),
      (410, ''Gone''),
      (411, ''Length Required''),
      (412, ''Precondition Failed''),
      (413, ''Payload Too Large''),
      (414, ''URI Too Long''),
      (415, ''Unsupported Media Type''),
      (416, ''Range Not Satisfiable''),
      (417, ''Expectation Failed''),
      (418, ''I'm a teapot''),
      (421, ''Misdirected Request''),
      (422, ''Unprocessable Entity''),
      (423, ''Locked''),
      (424, ''Failed Dependency''),
      (425, ''Too Early''),
      (426, ''Upgrade Required''),
      (428, ''Precondition Required''),
      (429, ''Too Many Requests''),
      (431, ''Request Header Fields Too Large''),
      (451, ''Unavailable For Legal Reasons''),
      (500, ''Internal Server Error''),
      (501, ''Not Implemented''),
      (502, ''Bad Gateway''),
      (503, ''Service Unavailable''),
      (504, ''Gateway Timeout''),
      (505, ''HTTP Version Not Supported''),
      (506, ''Variant Also Negotiates''),
      (507, ''Insufficient Storage''),
      (508, ''Loop Detected''),
      (510, ''Not Extended''),
      (511, ''Network Authentication Required'')]"

text \<open>\<^verbatim>\<open>cls._phrases.get(status_code, "Unknown Status Code")\<close>, the body of
  \<^verbatim>\<open>StatusText.get\<close> under its decorator.\<close>

definition phrases_get :: "int \<Rightarrow> string" where
  "phrases_get status_code =
     (case map_of phrases status_code of
        Some phrase \<Rightarrow> phrase
      | None \<Rightarrow> ''Unknown Status Code'')"

text \<open>
  Modelled from the spec: the decorator \<^verbatim>\<open>cache(maxsize=128)\<close> of
  \<^verbatim>\<open>scrapling.core.utils\<close>, which is not among the sources. The spec describes it as
  a memo table per distinct argument, bounded by a capacity; it leaves the eviction
  policy open and accepts least-recently-used, which is the one taken here. The table
  lists its entries most recently used first; \<open>misses\<close> counts how
  often the decorated function was really run and \<open>hits\<close> how often a stored value
  was returned instead.
\<close>

record ('k, 'v) lru =
  entries :: "('k \<times> 'v) list"
  hits :: nat
  misses :: nat

definition lru_empty :: "('k, 'v) lru" where
  "lru_empty = \<lparr>entries = [], hits = 0, misses = 0\<rparr>"

definition cache :: "nat \<Rightarrow> ('k \<Rightarrow> 'v) \<Rightarrow> 'k \<Rightarrow> ('k, 'v) lru \<Rightarrow> 'v \<times> ('k, 'v) lru" where
  "cache maxsize f k c =
     (case map_of (entries c) k of
        Some v \<Rightarrow>
          (v, c\<lparr>entries := (k, v) # filter (\<lambda>e. fst e \<noteq> k) (entries c),
                 hits := Suc (hits c)\<rparr>)
      | None \<Rightarrow>
          (let v = f k
           in (v, c\<lparr>entries := take maxsize ((k, v) # entries c),
                     misses := Suc (misses c)\<rparr>)))"

text \<open>\<^verbatim>\<open>StatusText.get\<close>: the table lookup behind the bounded cache.\<close>

definition StatusText_get :: "int \<Rightarrow> (int, string) lru \<Rightarrow> string \<times> (int, string) lru" where
  "StatusText_get status_code c = cache 128 phrases_get status_code c"

text \<open>A run of lookups, one after the other, on the same cache.\<close>

fun lookups :: "int list \<Rightarrow> (int, string) lru \<Rightarrow> (int, string) lru" where
  "lookups [] c = c"
| "lookups (k # ks) c = lookups ks (snd (StatusText_get k c))"

section \<open>The unified response\<close>

text \<open>
  Modelled from the spec: the class \<^verbatim>\<open>Adaptor\<close> of \<^verbatim>\<open>scrapling.parser\<close>, which is
  not among the sources. Its constructor keeps the text, the body, the url and the
  encoding it is given as attributes of the parsed document, together with the parsing
  options passed through to it.
\<close>

record adaptor =
  page_text :: string
  body :: string
  url :: pyval
  encoding :: string
  arguments :: "(string \<times> pyval) list"

definition Adaptor_init ::
  "string \<Rightarrow> string \<Rightarrow> pyval \<Rightarrow> string \<Rightarrow> (string \<times> pyval) list \<Rightarrow> adaptor" where
  "Adaptor_init text' body' url' encoding' adaptor_arguments' =
     \<lparr>page_text = text', body = body', url = url', encoding = encoding',
      arguments = adaptor_arguments'\<rparr>"

text \<open>\<^verbatim>\<open>class Response(Adaptor)\<close>: the parsed document with the transport attributes.\<close>

record response = adaptor +
  status :: int
  reason :: string
  cookies :: "(string \<times> string) list"
  headers :: "(string \<times> string) list"
  request_headers :: "(string \<times> string) list"

text \<open>\<^verbatim>\<open>d.pop(key, None)\<close>: the value popped and the dictionary left.\<close>

definition dict_pop :: "string \<Rightarrow> (string \<times> pyval) list \<Rightarrow> pyval \<times> (string \<times> pyval) list" where
  "dict_pop key d =
     ((case map_of d key of Some v \<Rightarrow> v | None \<Rightarrow> PNone), AList.delete key d)"

text \<open>\<^verbatim>\<open>Response.__init__\<close>\<close>

definition Response_init ::
  "string \<Rightarrow> string \<Rightarrow> string \<Rightarrow> int \<Rightarrow> string \<Rightarrow> (string \<times> string) list
     \<Rightarrow> (string \<times> string) list \<Rightarrow> (string \<times> string) list \<Rightarrow> string
     \<Rightarrow> (string \<times> pyval) list \<Rightarrow> response" where
  "Response_init url' text' body' status' reason' cookies' headers' request_headers' encoding'
       adaptor_arguments' =
     (let (automatch_domain, rest) = dict_pop ''automatch_domain'' adaptor_arguments'
      in adaptor.extend
           (Adaptor_init text' body' (py_or automatch_domain (PStr url')) encoding' rest)
           (response.fields status' reason' cookies' headers' request_headers'))"

section \<open>The shared fetcher configuration\<close>

record base_fetcher =
  adaptor_arguments :: "(string \<times> pyval) list"

definition msg_automatch_ignored :: string where
  \<open>msg_automatch_ignored =
     ''[Ignored] The argument "automatch_domain" must be of string type''\<close>

text \<open>
  \<^verbatim>\<open>BaseFetcher.__init__\<close>. \<^verbatim>\<open>setup_basic_logging\<close> belongs to
  \<^verbatim>\<open>scrapling.core.utils\<close> and is taken as the parameter \<open>setup\<close>: what it does to the
  logger for a given level.
\<close>

definition BaseFetcher_init ::
  "(string \<Rightarrow> logger \<Rightarrow> logger) \<Rightarrow> pyval \<Rightarrow> pyval \<Rightarrow> pyval \<Rightarrow> pyval \<Rightarrow> pyval \<Rightarrow> pyval \<Rightarrow> pyval
     \<Rightarrow> logger \<Rightarrow> base_fetcher \<times> logger" where
  "BaseFetcher_init setup huge_tree keep_comments auto_match storage storage_args debug
       automatch_domain lg =
     (let args = [(''huge_tree'', huge_tree), (''keep_comments'', keep_comments),
                  (''auto_match'', auto_match), (''storage'', storage),
                  (''storage_args'', storage_args), (''debug'', debug)];
          lg1 = setup (if truthy debug then ''debug'' else ''info'') lg
      in if truthy automatch_domain then
           (if type_of automatch_domain \<noteq> T_str then
              (\<lparr>adaptor_arguments = args\<rparr>, logging_warning msg_automatch_ignored lg1)
            else
              (\<lparr>adaptor_arguments = AList.update ''automatch_domain'' automatch_domain args\<rparr>,
               lg1))
         else (\<lparr>adaptor_arguments = args\<rparr>, lg1))"

section \<open>The dispatchers\<close>

text \<open>
  The engines are collaborators outside this module. A dispatcher reaches them in two
  ways only: it calls an engine class with positional and keyword arguments to obtain an
  instance, and it calls a method of that instance. Both may change the world (network,
  browser processes) and both may raise. The record \<open>backend\<close> holds what these two
  calls do; the dispatchers are written over an arbitrary one.
\<close>

datatype engine_class = StaticEngine | CamoufoxEngine | PlaywrightEngine | CustomEngine pyobject

record ('w, 'i) backend =
  new_engine :: "engine_class \<Rightarrow> pyval list \<Rightarrow> (string \<times> pyval) list \<Rightarrow> 'w \<Rightarrow> 'w \<times> (error + 'i)"
  call_method ::
    "'i \<Rightarrow> string \<Rightarrow> pyval list \<Rightarrow> (string \<times> pyval) list \<Rightarrow> 'w \<Rightarrow> 'w \<times> (error + response)"

text \<open>The calls a dispatcher makes, in the order it makes them.\<close>

datatype call =
    Call_check_if_engine_usable pyobject
  | Call_new engine_class
  | Call_method string

record 'w dispatch_state =
  world :: 'w
  trace :: "call list"

definition instantiate ::
  "('w, 'i) backend \<Rightarrow> engine_class \<Rightarrow> pyval list \<Rightarrow> (string \<times> pyval) list
     \<Rightarrow> 'w dispatch_state \<Rightarrow> 'w dispatch_state \<times> (error + 'i)" where
  "instantiate B cls args kwargs s =
     (let (w, r) = new_engine B cls args kwargs (world s)
      in (\<lparr>world = w, trace = trace s @ [Call_new cls]\<rparr>, r))"

definition invoke ::
  "('w, 'i) backend \<Rightarrow> 'i \<Rightarrow> string \<Rightarrow> pyval list \<Rightarrow> (string \<times> pyval) list
     \<Rightarrow> 'w dispatch_state \<Rightarrow> 'w dispatch_state \<times> (error + response)" where
  "invoke B engine name args kwargs s =
     (let (w, r) = call_method B engine name args kwargs (world s)
      in (\<lparr>world = w, trace = trace s @ [Call_method name]\<rparr>, r))"

text \<open>The expression \<^verbatim>\<open>Cls(*args, **kwargs).name(*margs, **mkwargs)\<close>: an exception
  raised by the constructor leaves the method uncalled.\<close>

definition construct_and_call ::
  "('w, 'i) backend \<Rightarrow> engine_class \<Rightarrow> pyval list \<Rightarrow> (string \<times> pyval) list \<Rightarrow> string
     \<Rightarrow> pyval list \<Rightarrow> (string \<times> pyval) list
     \<Rightarrow> 'w dispatch_state \<Rightarrow> 'w dispatch_state \<times> (error + response)" where
  "construct_and_call B cls args kwargs name margs mkwargs s =
     (case instantiate B cls args kwargs s of
        (s1, Inl e) \<Rightarrow> (s1, Inl e)
      | (s1, Inr engine) \<Rightarrow> invoke B engine name margs mkwargs s1)"

text \<open>\<^verbatim>\<open>Fetcher.get\<close>, \<^verbatim>\<open>post\<close>, \<^verbatim>\<open>put\<close> and \<^verbatim>\<open>delete\<close>\<close>

definition Fetcher_get ::
  "('w, 'i) backend \<Rightarrow> base_fetcher \<Rightarrow> string \<Rightarrow> pyval \<Rightarrow> pyval \<Rightarrow> pyval \<Rightarrow> (string \<times> pyval) list
     \<Rightarrow> 'w dispatch_state \<Rightarrow> 'w dispatch_state \<times> (error + response)" where
  "Fetcher_get B self url' follow_redirects timeout stealthy_headers kwargs =
     construct_and_call B StaticEngine [follow_redirects, timeout]
       [(''adaptor_arguments'', PDict (adaptor_arguments self))]
       ''get'' [PStr url', stealthy_headers] kwargs"

definition Fetcher_post ::
  "('w, 'i) backend \<Rightarrow> base_fetcher \<Rightarrow> string \<Rightarrow> pyval \<Rightarrow> pyval \<Rightarrow> pyval \<Rightarrow> (string \<times> pyval) list
     \<Rightarrow> 'w dispatch_state \<Rightarrow> 'w dispatch_state \<times> (error + response)" where
  "Fetcher_post B self url' follow_redirects timeout stealthy_headers kwargs =
     construct_and_call B StaticEngine [follow_redirects, timeout]
       [(''adaptor_arguments'', PDict (adaptor_arguments self))]
       ''post'' [PStr url', stealthy_headers] kwargs"

definition Fetcher_put ::
  "('w, 'i) backend \<Rightarrow> base_fetcher \<Rightarrow> string \<Rightarrow> pyval \<Rightarrow> pyval \<Rightarrow> pyval \<Rightarrow> (string \<times> pyval) list
     \<Rightarrow> 'w dispatch_state \<Rightarrow> 'w dispatch_state \<times> (error + response)" where
  "Fetcher_put B self url' follow_redirects timeout stealthy_headers kwargs =
     construct_and_call B StaticEngine [follow_redirects, timeout]
       [(''adaptor_arguments'', PDict (adaptor_arguments self))]
       ''put'' [PStr url', stealthy_headers] kwargs"

definition Fetcher_delete ::
  "('w, 'i) backend \<Rightarrow> base_fetcher \<Rightarrow> string \<Rightarrow> pyval \<Rightarrow> pyval \<Rightarrow> pyval \<Rightarrow> (string \<times> pyval) list
     \<Rightarrow> 'w dispatch_state \<Rightarrow> 'w dispatch_state \<times> (error + response)" where
  "Fetcher_delete B self url' follow_redirects timeout stealthy_headers kwargs =
     construct_and_call B StaticEngine [follow_redirects, timeout]
       [(''adaptor_arguments'', PDict (adaptor_arguments self))]
       ''delete'' [PStr url', stealthy_headers] kwargs"

text \<open>\<^verbatim>\<open>StealthyFetcher.fetch\<close>\<close>

definition StealthyFetcher_fetch ::
  "('w, 'i) backend \<Rightarrow> base_fetcher \<Rightarrow> string \<Rightarrow> pyval \<Rightarrow> pyval \<Rightarrow> pyval \<Rightarrow> pyval \<Rightarrow> pyval \<Rightarrow> pyval
     \<Rightarrow> pyval \<Rightarrow> pyval \<Rightarrow> pyval \<Rightarrow> pyval \<Rightarrow> pyval \<Rightarrow> pyval \<Rightarrow> pyval \<Rightarrow> pyval \<Rightarrow> pyval \<Rightarrow> pyval
     \<Rightarrow> 'w dispatch_state \<Rightarrow> 'w dispatch_state \<times> (error + response)" where
  "StealthyFetcher_fetch B self url' headless block_images disable_resources block_webrtc
       allow_webgl network_idle addons timeout page_action wait_selector humanize
       wait_selector_state google_search extra_headers proxy os_randomize =
     construct_and_call B CamoufoxEngine []
       [(''proxy'', proxy), (''addons'', addons), (''timeout'', timeout),
        (''headless'', headless), (''humanize'', humanize), (''allow_webgl'', allow_webgl),
        (''page_action'', page_action), (''network_idle'', network_idle),
        (''block_images'', block_images), (''block_webrtc'', block_webrtc),
        (''os_randomize'', os_randomize), (''wait_selector'', wait_selector),
        (''google_search'', google_search), (''extra_headers'', extra_headers),
        (''disable_resources'', disable_resources),
        (''wait_selector_state'', wait_selector_state),
        (''adaptor_arguments'', PDict (adaptor_arguments self))]
       ''fetch'' [PStr url'] []"

text \<open>\<^verbatim>\<open>PlayWrightFetcher.fetch\<close>\<close>

definition PlayWrightFetcher_fetch ::
  "('w, 'i) backend \<Rightarrow> base_fetcher \<Rightarrow> string \<Rightarrow> pyval \<Rightarrow> pyval \<Rightarrow> pyval \<Rightarrow> pyval \<Rightarrow> pyval \<Rightarrow> pyval
     \<Rightarrow> pyval \<Rightarrow> pyval \<Rightarrow> pyval \<Rightarrow> pyval \<Rightarrow> pyval \<Rightarrow> pyval \<Rightarrow> pyval \<Rightarrow> pyval \<Rightarrow> pyval \<Rightarrow> pyval
     \<Rightarrow> pyval
     \<Rightarrow> 'w dispatch_state \<Rightarrow> 'w dispatch_state \<times> (error + response)" where
  "PlayWrightFetcher_fetch B self url' headless disable_resources useragent network_idle
       timeout page_action wait_selector wait_selector_state hide_canvas disable_webgl
       extra_headers google_search proxy stealth cdp_url nstbrowser_mode nstbrowser_config =
     construct_and_call B PlaywrightEngine []
       [(''proxy'', proxy), (''timeout'', timeout), (''stealth'', stealth),
        (''cdp_url'', cdp_url), (''headless'', headless), (''useragent'', useragent),
        (''page_action'', page_action), (''hide_canvas'', hide_canvas),
        (''network_idle'', network_idle), (''google_search'', google_search),
        (''extra_headers'', extra_headers), (''wait_selector'', wait_selector),
        (''disable_webgl'', disable_webgl), (''nstbrowser_mode'', nstbrowser_mode),
        (''nstbrowser_config'', nstbrowser_config),
        (''disable_resources'', disable_resources),
        (''wait_selector_state'', wait_selector_state),
        (''adaptor_arguments'', PDict (adaptor_arguments self))]
       ''fetch'' [PStr url'] []"

text \<open>
  The message of the \<^verbatim>\<open>TypeError\<close> Python raises when \<^verbatim>\<open>**kwargs\<close> repeats a
  keyword written out in the call. Python puts the printed name of the callee in front of
  it; the model leaves that name out.
\<close>

definition msg_multiple_values :: string where
  "msg_multiple_values =
     ''got multiple values for keyword argument ''
       @ [CHR 0x27] @ ''adaptor_arguments'' @ [CHR 0x27]"

text \<open>
  \<^verbatim>\<open>CustomFetcher.fetch\<close>. Python evaluates the callee,
  \<^verbatim>\<open>check_if_engine_usable(browser_engine)\<close>, before it calls it: the check comes
  first and its exception ends the call. The keyword arguments are put together next, and
  when \<^verbatim>\<open>kwargs\<close> holds \<^verbatim>\<open>adaptor_arguments\<close> already, that fails with a
  \<^verbatim>\<open>TypeError\<close> before the engine class is entered.
\<close>

definition CustomFetcher_fetch ::
  "('w, 'i) backend \<Rightarrow> base_fetcher \<Rightarrow> string \<Rightarrow> pyobject \<Rightarrow> (string \<times> pyval) list
     \<Rightarrow> 'w dispatch_state \<Rightarrow> 'w dispatch_state \<times> (error + response)" where
  "CustomFetcher_fetch B self url' browser_engine kwargs s =
     (let s0 = s\<lparr>trace := trace s @ [Call_check_if_engine_usable browser_engine]\<rparr>
      in case check_if_engine_usable browser_engine of
           Inl e \<Rightarrow> (s0, Inl e)
         | Inr cls \<Rightarrow>
             if ''adaptor_arguments'' \<in> fst ` set kwargs then
               (s0, Inl (TypeError msg_multiple_values))
             else
               construct_and_call B (CustomEngine cls) []
                 ((''adaptor_arguments'', PDict (adaptor_arguments self)) # kwargs)
                 ''fetch'' [PStr url'] [] s0)"

section \<open>Notions used to state the properties\<close>

text \<open>The list of kinds the validator works with: \<^verbatim>\<open>valid_types or []\<close>.\<close>

definition allowed_kinds :: "pytype list option \<Rightarrow> pytype list" where
  "allowed_kinds valid_types = (case valid_types of None \<Rightarrow> [] | Some ts \<Rightarrow> ts)"

text \<open>
  Failing validation, in the words of the specification: the value is absent and absence
  is not an allowed kind, or the value is there, kinds are given (an empty list of kinds
  lets every value that is there pass) and its kind matches none of them.
\<close>

definition fails_validation :: "pyref \<Rightarrow> pytype list option \<Rightarrow> bool" where
  "fails_validation variable valid_types \<longleftrightarrow>
     (snd variable = PNone \<and> T_NoneType \<notin> set (allowed_kinds valid_types)) \<or>
     (snd variable \<noteq> PNone \<and> allowed_kinds valid_types \<noteq> [] \<and>
      (\<forall>t \<in> set (allowed_kinds valid_types). \<not> isinstance (snd variable) t))"

text \<open>The calls a dispatcher has added to the trace between two states.\<close>

definition calls_made :: "'w dispatch_state \<Rightarrow> 'w dispatch_state \<Rightarrow> call list" where
  "calls_made s s' = drop (length (trace s)) (trace s')"

text \<open>A logging setup that leaves the records alone, and a backend that counts in the
  world every call that reaches it; both serve as concrete instances.\<close>

definition setup_noop :: "string \<Rightarrow> logger \<Rightarrow> logger" where
  "setup_noop lvl lg = lg"

definition counting_backend :: "(nat, unit) backend" where
  "counting_backend =
     \<lparr>new_engine = (\<lambda>cls args kwargs w. (Suc w, Inr ())),
      call_method = (\<lambda>i name args kwargs w. (Suc w, Inl (BackendError ''no network'')))\<rparr>"

text \<open>The keys a cache holds, most recently used first, and what one lookup of \<open>k\<close> does
  to them in a cache of 128 entries.\<close>

definition keys :: "('k, 'v) lru \<Rightarrow> 'k list" where
  "keys c = map fst (entries c)"

definition touch :: "int \<Rightarrow> int list \<Rightarrow> int list" where
  "touch k ks = take 128 (k # filter (\<lambda>x. x \<noteq> k) ks)"

text \<open>The invariant of the cache of \<^verbatim>\<open>StatusText.get\<close>: at most 128 entries, each the
  phrase of its code.\<close>

definition cache_ok :: "(int, string) lru \<Rightarrow> bool" where
  "cache_ok c \<longleftrightarrow>
     length (entries c) \<le> 128 \<and> (\<forall>(k, v) \<in> set (entries c). v = phrases_get k)"

section \<open>The engine capability check: properties\<close>

lemma check_if_engine_usable_cases:
  "(map_of (attrs engine) ''fetch'' = None \<longrightarrow>
      check_if_engine_usable engine = Inl (TypeError msg_no_fetch)) \<and>
   (\<forall>f. map_of (attrs engine) ''fetch'' = Some f \<and> \<not> callable f \<longrightarrow>
      check_if_engine_usable engine = Inl (TypeError msg_not_callable)) \<and>
   (\<forall>f. map_of (attrs engine) ''fetch'' = Some f \<and> callable f
        \<and> signature_parameters f = Inr 0 \<longrightarrow>
      check_if_engine_usable engine = Inl (TypeError msg_no_arguments)) \<and>
   (\<forall>f n. map_of (attrs engine) ''fetch'' = Some f \<and> callable f
        \<and> signature_parameters f = Inr n \<and> 0 < n \<longrightarrow>
      check_if_engine_usable engine = Inr engine) \<and>
   (\<forall>f e. map_of (attrs engine) ''fetch'' = Some f \<and> callable f
        \<and> signature_parameters f = Inl e \<longrightarrow>
      check_if_engine_usable engine = Inl e)"
  by (simp add: check_if_engine_usable_def)

text \<open>
  Claim C1 says that every candidate is either rejected with the check's error (the
  \<^verbatim>\<open>TypeError\<close> the specification calls InvalidEngineError) or returned as it is. The
  code does neither for a candidate whose \<^verbatim>\<open>fetch\<close> is a callable with a signature
  that cannot be read, such as a class with \<^verbatim>\<open>fetch = min\<close>: the check leaves with
  the \<^verbatim>\<open>ValueError\<close> of \<^verbatim>\<open>inspect.signature\<close>.
\<close>

theorem check_if_engine_usable_unreadable_signature:
  "check_if_engine_usable
     \<lparr>oid = 5,
      attrs = [(''fetch'', PBuiltin ''no signature found for builtin <built-in function min>'')]\<rparr>
     = Inl (ValueError ''no signature found for builtin <built-in function min>'')"
  by (simp add: check_if_engine_usable_def)

section \<open>The dispatchers: properties\<close>

lemma trace_construct_and_call:
  "trace (fst (construct_and_call B cls args kwargs name margs mkwargs s)) = trace s @ [Call_new cls]
   \<or> trace (fst (construct_and_call B cls args kwargs name margs mkwargs s))
       = trace s @ [Call_new cls, Call_method name]"
  by (auto simp: construct_and_call_def instantiate_def invoke_def split: prod.splits sum.splits)

lemma calls_made_construct_and_call:
  "Call_check_if_engine_usable e
     \<notin> set (calls_made s (fst (construct_and_call B cls args kwargs name margs mkwargs s)))"
  using trace_construct_and_call [of B cls args kwargs name margs mkwargs s]
  by (auto simp: calls_made_def)

text \<open>
  Claim C2. The custom dispatcher always makes the capability check its first call.
  Whatever exception the check leaves with, the dispatcher ends there with it: the engine
  is neither instantiated nor asked to fetch, and the world is as it was. For an engine
  that fails the check, having no \<^verbatim>\<open>fetch\<close>, one that is not callable or one that
  takes no parameter, that exception is the check's \<^verbatim>\<open>TypeError\<close> (the
  specification's InvalidEngineError).
\<close>

theorem CustomFetcher_fetch_checks_first:
  "(\<exists>rest. trace (fst (CustomFetcher_fetch B self u browser_engine kw s))
             = trace s @ Call_check_if_engine_usable browser_engine # rest) \<and>
   (\<forall>e. check_if_engine_usable browser_engine = Inl e \<longrightarrow>
      CustomFetcher_fetch B self u browser_engine kw s
        = (s\<lparr>trace := trace s @ [Call_check_if_engine_usable browser_engine]\<rparr>, Inl e)) \<and>
   (map_of (attrs browser_engine) ''fetch'' = None \<or>
    (\<exists>f. map_of (attrs browser_engine) ''fetch'' = Some f \<and>
         (\<not> callable f \<or> signature_parameters f = Inr 0)) \<longrightarrow>
      (\<exists>msg. CustomFetcher_fetch B self u browser_engine kw s
         = (s\<lparr>trace := trace s @ [Call_check_if_engine_usable browser_engine]\<rparr>,
            Inl (TypeError msg))))"
proof -
  let ?s0 = "s\<lparr>trace := trace s @ [Call_check_if_engine_usable browser_engine]\<rparr>"
  have first: "\<exists>rest. trace (fst (CustomFetcher_fetch B self u browser_engine kw s))
             = trace s @ Call_check_if_engine_usable browser_engine # rest"
  proof (cases "check_if_engine_usable browser_engine")
    case (Inl e)
    then show ?thesis by (simp add: CustomFetcher_fetch_def)
  next
    case (Inr cls)
    from trace_construct_and_call [of B "CustomEngine cls" "[]"
        "(''adaptor_arguments'', PDict (adaptor_arguments self)) # kw" "''fetch''" "[PStr u]" "[]" ?s0]
    show ?thesis using Inr by (auto simp: CustomFetcher_fetch_def Let_def)
  qed
  have stops: "CustomFetcher_fetch B self u browser_engine kw s = (?s0, Inl e)"
    if "check_if_engine_usable browser_engine = Inl e" for e
    using that by (simp add: CustomFetcher_fetch_def)
  have fails: "\<exists>msg. check_if_engine_usable browser_engine = Inl (TypeError msg)"
    if "map_of (attrs browser_engine) ''fetch'' = None \<or>
        (\<exists>f. map_of (attrs browser_engine) ''fetch'' = Some f \<and>
             (\<not> callable f \<or> signature_parameters f = Inr 0))"
    using that by (auto simp: check_if_engine_usable_def)
  show ?thesis using first stops fails by metis
qed

theorem CustomFetcher_fetch_checks_first_witness:
  "map_of (attrs \<lparr>oid = 1, attrs = []\<rparr>) ''fetch'' = None \<and>
   check_if_engine_usable \<lparr>oid = 1, attrs = []\<rparr> = Inl (TypeError msg_no_fetch) \<and>
   CustomFetcher_fetch counting_backend \<lparr>adaptor_arguments = []\<rparr> ''http://example.com''
       \<lparr>oid = 1, attrs = []\<rparr> [] \<lparr>world = 0, trace = []\<rparr>
     = (\<lparr>world = 0, trace = [Call_check_if_engine_usable \<lparr>oid = 1, attrs = []\<rparr>]\<rparr>,
        Inl (TypeError msg_no_fetch)) \<and>
   CustomFetcher_fetch counting_backend \<lparr>adaptor_arguments = []\<rparr> ''http://example.com''
       \<lparr>oid = 3, attrs = [(''fetch'', PFunc 0)]\<rparr> [] \<lparr>world = 0, trace = []\<rparr>
     = (\<lparr>world = 0,
         trace = [Call_check_if_engine_usable \<lparr>oid = 3, attrs = [(''fetch'', PFunc 0)]\<rparr>]\<rparr>,
        Inl (TypeError msg_no_arguments))"
  using CustomFetcher_fetch_checks_first [of counting_backend "\<lparr>adaptor_arguments = []\<rparr>"
          "''http://example.com''" "\<lparr>oid = 1, attrs = []\<rparr>" "[]" "\<lparr>world = 0, trace = []\<rparr>"]
        CustomFetcher_fetch_checks_first [of counting_backend "\<lparr>adaptor_arguments = []\<rparr>"
          "''http://example.com''" "\<lparr>oid = 3, attrs = [(''fetch'', PFunc 0)]\<rparr>" "[]"
          "\<lparr>world = 0, trace = []\<rparr>"]
  by (simp add: check_if_engine_usable_def)

text \<open>
  Claim C8. None of the built-in dispatch methods calls the capability check: the calls
  that \<^verbatim>\<open>Fetcher.get\<close>, \<^verbatim>\<open>post\<close>, \<^verbatim>\<open>put\<close>, \<^verbatim>\<open>delete\<close>,
  \<^verbatim>\<open>StealthyFetcher.fetch\<close> and \<^verbatim>\<open>PlayWrightFetcher.fetch\<close> make are the construction
  of the engine and the call of its method, and no check of any engine is among them.
\<close>

theorem builtin_dispatch_never_checks:
  "Call_check_if_engine_usable e \<notin> set (calls_made s (fst (Fetcher_get B self u fr tmo sh kw s))) \<and>
   Call_check_if_engine_usable e \<notin> set (calls_made s (fst (Fetcher_post B self u fr tmo sh kw s))) \<and>
   Call_check_if_engine_usable e \<notin> set (calls_made s (fst (Fetcher_put B self u fr tmo sh kw s))) \<and>
   Call_check_if_engine_usable e \<notin> set (calls_made s (fst (Fetcher_delete B self u fr tmo sh kw s))) \<and>
   Call_check_if_engine_usable e \<notin> set (calls_made s (fst (StealthyFetcher_fetch B self u
       a1 a2 a3 a4 a5 a6 a7 a8 a9 a10 a11 a12 a13 a14 a15 a16 s))) \<and>
   Call_check_if_engine_usable e \<notin> set (calls_made s (fst (PlayWrightFetcher_fetch B self u
       b1 b2 b3 b4 b5 b6 b7 b8 b9 b10 b11 b12 b13 b14 b15 b16 b17 s)))"
  by (simp add: Fetcher_get_def Fetcher_post_def Fetcher_put_def Fetcher_delete_def
        StealthyFetcher_fetch_def PlayWrightFetcher_fetch_def calls_made_construct_and_call)

section \<open>The unified response: properties\<close>

lemma url_Response_init:
  "url (Response_init u t b st r c h rh enc aa) =
     py_or (case map_of aa ''automatch_domain'' of Some v \<Rightarrow> v | None \<Rightarrow> PNone) (PStr u)"
  by (simp add: Response_init_def dict_pop_def Adaptor_init_def adaptor.extend_def)

text \<open>
  Claim C3. A response built for the request url \<^verbatim>\<open>http://sub.example.org/x\<close> with the
  parsing option \<^verbatim>\<open>automatch_domain="example.com"\<close> has the url \<^verbatim>\<open>example.com\<close>;
  built without the option it has the request url.
\<close>

theorem Response_init_url_override:
  "(map_of aa ''automatch_domain'' = Some (PStr ''example.com'') \<longrightarrow>
      url (Response_init ''http://sub.example.org/x'' t b st r c h rh enc aa)
        = PStr ''example.com'') \<and>
   (map_of aa ''automatch_domain'' = None \<longrightarrow>
      url (Response_init ''http://sub.example.org/x'' t b st r c h rh enc aa)
        = PStr ''http://sub.example.org/x'')"
  by (simp add: url_Response_init py_or_def)

theorem Response_init_url_override_witness:
  "url (Response_init ''http://sub.example.org/x'' ''<html/>'' ''<html/>'' 200 ''OK'' [] [] []
          ''utf-8'' [(''huge_tree'', PBool True), (''automatch_domain'', PStr ''example.com'')])
     = PStr ''example.com'' \<and>
   url (Response_init ''http://sub.example.org/x'' ''<html/>'' ''<html/>'' 200 ''OK'' [] [] []
          ''utf-8'' [(''huge_tree'', PBool True)])
     = PStr ''http://sub.example.org/x''"
  using Response_init_url_override
          [of "[(''huge_tree'', PBool True), (''automatch_domain'', PStr ''example.com'')]"
              "''<html/>''" "''<html/>''" 200 "''OK''" "[]" "[]" "[]" "''utf-8''"]
        Response_init_url_override
          [of "[(''huge_tree'', PBool True)]"
              "''<html/>''" "''<html/>''" 200 "''OK''" "[]" "[]" "[]" "''utf-8''"]
  by simp

text \<open>
  Claim C9. When the parsing options carry \<^verbatim>\<open>automatch_domain\<close> with a value that
  counts as false (the empty string, for one), the response keeps the request url: the
  key being there is not enough to replace it.
\<close>

theorem Response_init_falsy_override:
  "map_of aa ''automatch_domain'' = Some v \<Longrightarrow> \<not> truthy v \<Longrightarrow>
     url (Response_init u t b st r c h rh enc aa) = PStr u"
  by (simp add: url_Response_init py_or_def)

theorem Response_init_falsy_override_witness:
  "map_of [(''automatch_domain'', PStr [])] ''automatch_domain'' = Some (PStr []) \<and>
   \<not> truthy (PStr []) \<and>
   url (Response_init ''http://sub.example.org/x'' ''<html/>'' ''<html/>'' 200 ''OK'' [] [] []
          ''utf-8'' [(''automatch_domain'', PStr [])])
     = PStr ''http://sub.example.org/x''"
  using Response_init_falsy_override
          [of "[(''automatch_domain'', PStr [])]" "PStr []" "''http://sub.example.org/x''"
              "''<html/>''" "''<html/>''" 200 "''OK''" "[]" "[]" "[]" "''utf-8''"]
  by simp

section \<open>The type validator: properties\<close>

lemma check_type_validity_cases:
  "check_type_validity g variable vts d critical pn lg =
     (if fails_validation variable vts then
        (if snd variable = PNone then
           (if critical then (lg, Inl (TypeError (none_msg (var_name_of pn g (fst variable)))))
            else (logging_error (''[Ignored] '' @ none_msg (var_name_of pn g (fst variable))) lg,
                  Inr d))
         else
           (if critical then
              (lg, Inl (TypeError (type_msg (var_name_of pn g (fst variable)) (allowed_kinds vts))))
            else (logging_error
                    (''[Ignored] '' @ type_msg (var_name_of pn g (fst variable)) (allowed_kinds vts))
                    lg,
                  Inr d)))
      else (lg, Inr variable))"
  by (auto simp: check_type_validity_def fails_validation_def allowed_kinds_def Let_def list_ex_iff
           split: option.splits)

text \<open>
  Claim C4. With \<^verbatim>\<open>critical=False\<close> the validator never raises, whatever the value,
  the kinds and the default are, and when validation fails it returns the default it was
  given.
\<close>

theorem check_type_validity_not_critical:
  "(\<exists>v. snd (check_type_validity g variable vts d False pn lg) = Inr v) \<and>
   (fails_validation variable vts \<longrightarrow>
      snd (check_type_validity g variable vts d False pn lg) = Inr d)"
  by (simp add: check_type_validity_cases)

theorem check_type_validity_not_critical_witness:
  "fails_validation (7, PInt 5) (Some [T_str, T_list]) \<and>
   fails_validation (0, PNone) (Some [T_str]) \<and>
   snd (check_type_validity [] (7, PInt 5) (Some [T_str, T_list]) (8, PStr ''dflt'') False
          (Some ''x'') [])
     = Inr (8, PStr ''dflt'') \<and>
   snd (check_type_validity [] (0, PNone) (Some [T_str]) (8, PStr ''dflt'') False None [])
     = Inr (8, PStr ''dflt'')"
  using check_type_validity_not_critical
          [of "[]" "(7, PInt 5)" "Some [T_str, T_list]" "(8, PStr ''dflt'')" "Some ''x''" "[]"]
        check_type_validity_not_critical
          [of "[]" "(0, PNone)" "Some [T_str]" "(8, PStr ''dflt'')" None "[]"]
  by (simp add: fails_validation_def allowed_kinds_def isinstance_def issubclass_def)

text \<open>
  Claim C5. With \<^verbatim>\<open>critical=True\<close> the validator raises its error (the
  \<^verbatim>\<open>TypeError\<close> the specification calls ConfigurationError) whenever validation fails;
  for a value of the wrong kind the message lists the names of all allowed kinds joined
  by \<^verbatim>\<open>or\<close>. When validation passes, the very value passed in is returned.
\<close>

theorem check_type_validity_critical:
  \<open>(snd variable = PNone \<and> T_NoneType \<notin> set (allowed_kinds vts) \<longrightarrow>
      check_type_validity g variable vts d True pn lg =
        (lg, Inl (TypeError
               (''Argument "'' @ var_name_of pn g (fst variable) @ ''" cannot be None'')))) \<and>
   (snd variable \<noteq> PNone \<and> allowed_kinds vts \<noteq> [] \<and>
    (\<forall>t \<in> set (allowed_kinds vts). \<not> isinstance (snd variable) t) \<longrightarrow>
      check_type_validity g variable vts d True pn lg =
        (lg, Inl (TypeError
               (''Argument "'' @ var_name_of pn g (fst variable) @ ''" must be of type ''
                  @ join '' or '' (map type_name (allowed_kinds vts)))))) \<and>
   (\<not> fails_validation variable vts \<longrightarrow>
      check_type_validity g variable vts d True pn lg = (lg, Inr variable))\<close>
  by (auto simp: check_type_validity_cases fails_validation_def none_msg_def type_msg_def)

theorem check_type_validity_critical_witness:
  \<open>check_type_validity [] (0, PNone) (Some [T_str]) (8, PStr ''dflt'') True (Some ''proxy'') []
     = ([], Inl (TypeError ''Argument "proxy" cannot be None'')) \<and>
   check_type_validity [] (7, PInt 5) (Some [T_str, T_dict]) (8, PStr ''dflt'') True
       (Some ''proxy'') []
     = ([], Inl (TypeError ''Argument "proxy" must be of type str or dict'')) \<and>
   check_type_validity [] (7, PBool True) (Some [T_str, T_int]) (8, PStr ''dflt'') True
       (Some ''proxy'') []
     = ([], Inr (7, PBool True))\<close>
  using check_type_validity_critical
          [of "(0, PNone)" "Some [T_str]" "[]" "(8, PStr ''dflt'')" "Some ''proxy''" "[]"]
        check_type_validity_critical
          [of "(7, PInt 5)" "Some [T_str, T_dict]" "[]" "(8, PStr ''dflt'')" "Some ''proxy''" "[]"]
        check_type_validity_critical
          [of "(7, PBool True)" "Some [T_str, T_int]" "[]" "(8, PStr ''dflt'')" "Some ''proxy''"
              "[]"]
  by (simp add: fails_validation_def allowed_kinds_def isinstance_def issubclass_def
        var_name_of_def)

text \<open>
  Claim C10. An absent value with no kinds given (the list empty or absent itself) fails
  validation, because the absence test comes before the test for an empty list: without
  \<^verbatim>\<open>critical\<close> the default is returned (and the rejection logged), with
  \<^verbatim>\<open>critical\<close> the error is raised.
\<close>

theorem check_type_validity_None_no_kinds:
  "snd variable = PNone \<and> (vts = None \<or> vts = Some []) \<longrightarrow>
     check_type_validity g variable vts d False pn lg =
       (logging_error (''[Ignored] '' @ none_msg (var_name_of pn g (fst variable))) lg, Inr d) \<and>
     check_type_validity g variable vts d True pn lg =
       (lg, Inl (TypeError (none_msg (var_name_of pn g (fst variable)))))"
  by (auto simp: check_type_validity_def)

theorem check_type_validity_None_no_kinds_witness:
  \<open>check_type_validity [] (0, PNone) None (8, PStr ''dflt'') False (Some ''proxy'') []
     = ([(ERROR, ''[Ignored] Argument "proxy" cannot be None'')], Inr (8, PStr ''dflt'')) \<and>
   check_type_validity [] (0, PNone) (Some []) (8, PStr ''dflt'') True (Some ''proxy'') []
     = ([], Inl (TypeError ''Argument "proxy" cannot be None''))\<close>
  using check_type_validity_None_no_kinds
          [of "(0, PNone)" None "[]" "(8, PStr ''dflt'')" "Some ''proxy''" "[]"]
        check_type_validity_None_no_kinds
          [of "(0, PNone)" "Some []" "[]" "(8, PStr ''dflt'')" "Some ''proxy''" "[]"]
  by (simp add: var_name_of_def none_msg_def logging_error_def)

section \<open>The shared fetcher configuration: properties\<close>

text \<open>
  Claim C7, as stated, fails: a fetcher built with \<^verbatim>\<open>automatch_domain=0\<close>, which is
  not a string, logs no warning at all.
\<close>

theorem BaseFetcher_init_falsy_no_warning:
  "type_of (PInt 0) \<noteq> T_str \<and>
   snd (BaseFetcher_init setup_noop (PBool True) (PBool False) (PBool True) (PObject 1) PNone
          (PBool False) (PInt 0) []) = []"
  by (simp add: BaseFetcher_init_def setup_noop_def)

text \<open>
  Claim C7, amended. A value of \<^verbatim>\<open>automatch_domain\<close> that is not a string never
  enters the adaptor arguments, so no override is used; the warning is logged when the
  value counts as true, and a value that counts as false is dropped without one.
\<close>

theorem BaseFetcher_init_non_string:
  "type_of automatch_domain \<noteq> T_str \<Longrightarrow>
     map_of (adaptor_arguments (fst (BaseFetcher_init setup huge_tree keep_comments auto_match
               storage storage_args debug automatch_domain lg))) ''automatch_domain'' = None \<and>
     snd (BaseFetcher_init setup huge_tree keep_comments auto_match storage storage_args debug
            automatch_domain lg) =
       (if truthy automatch_domain
        then setup (if truthy debug then ''debug'' else ''info'') lg
               @ [(WARNING, msg_automatch_ignored)]
        else setup (if truthy debug then ''debug'' else ''info'') lg)"
  by (simp add: BaseFetcher_init_def Let_def logging_warning_def)

theorem BaseFetcher_init_non_string_witness:
  \<open>type_of (PInt 7) \<noteq> T_str \<and>
   map_of (adaptor_arguments (fst (BaseFetcher_init setup_noop (PBool True) (PBool False)
      (PBool True) (PObject 1) PNone (PBool False) (PInt 7) []))) ''automatch_domain'' = None \<and>
   snd (BaseFetcher_init setup_noop (PBool True) (PBool False) (PBool True) (PObject 1) PNone
          (PBool False) (PInt 7) [])
     = [(WARNING, ''[Ignored] The argument "automatch_domain" must be of string type'')]\<close>
  using BaseFetcher_init_non_string [of "PInt 7" setup_noop "PBool True" "PBool False"
          "PBool True" "PObject 1" PNone "PBool False" "[]"]
  by (simp add: msg_automatch_ignored_def setup_noop_def)

section \<open>Status phrases: properties\<close>

lemma map_of_None_keys: "map_of (entries c) k = None \<longleftrightarrow> k \<notin> set (keys c)"
  by (simp add: keys_def map_of_eq_None_iff)

lemma filter_keys: "map fst (filter (\<lambda>e. fst e \<noteq> k) es) = filter (\<lambda>x. x \<noteq> k) (map fst es)"
  by (induction es) auto

lemma keys_get:
  assumes "length (entries c) \<le> 128"
  shows "keys (snd (StatusText_get k c)) = touch k (keys c)"
proof (cases "map_of (entries c) k")
  case None
  then have "k \<notin> set (keys c)" by (simp add: map_of_None_keys)
  then have "filter (\<lambda>x. x \<noteq> k) (keys c) = keys c" by (auto simp: filter_id_conv)
  with None show ?thesis
    by (simp add: StatusText_get_def cache_def keys_def touch_def take_map Let_def)
next
  case (Some v)
  then have "k \<in> set (keys c)" using map_of_None_keys [of c k] by simp
  then have "length (filter (\<lambda>x. x \<noteq> k) (keys c)) < length (keys c)"
    by (intro length_filter_less) auto
  with assms have "length (k # filter (\<lambda>x. x \<noteq> k) (keys c)) \<le> 128"
    by (simp add: keys_def)
  with Some show ?thesis
    by (simp add: StatusText_get_def cache_def keys_def touch_def filter_keys)
qed

lemma misses_get:
  "misses (snd (StatusText_get k c)) = (if k \<in> set (keys c) then misses c else Suc (misses c))"
  using map_of_None_keys [of c k]
  by (auto simp: StatusText_get_def cache_def Let_def split: option.splits)

lemma fst_get: "cache_ok c \<Longrightarrow> fst (StatusText_get k c) = phrases_get k"
  by (auto simp: StatusText_get_def cache_def cache_ok_def Let_def split: option.splits
           dest!: map_of_SomeD)

lemma length_get:
  assumes "length (entries c) \<le> 128"
  shows "length (entries (snd (StatusText_get k c))) \<le> 128"
proof -
  have "length (keys (snd (StatusText_get k c))) \<le> 128"
    by (simp add: keys_get [OF assms] touch_def)
  then show ?thesis by (simp add: keys_def)
qed

lemma consistent_get:
  assumes "\<forall>(k, v) \<in> set (entries c). v = phrases_get k"
  shows "\<forall>(k', v) \<in> set (entries (snd (StatusText_get k c))). v = phrases_get k'"
  using assms
  by (auto simp: StatusText_get_def cache_def Let_def split: option.splits
           dest!: map_of_SomeD in_set_takeD)

lemma cache_ok_get: "cache_ok c \<Longrightarrow> cache_ok (snd (StatusText_get k c))"
  unfolding cache_ok_def using length_get [of c k] consistent_get [of c k] by blast

lemma cache_ok_lookups: "cache_ok c \<Longrightarrow> cache_ok (lookups ks c)"
  by (induction ks arbitrary: c) (auto simp: cache_ok_get)

lemma cache_ok_empty: "cache_ok lru_empty"
  by (simp add: cache_ok_def lru_empty_def)

lemma lookups_append: "lookups (ks @ [k]) c = snd (StatusText_get k (lookups ks c))"
  by (induction ks arbitrary: c) auto

lemma touch_same: "\<exists>rest'. touch c ks = [] @ c # rest'"
  by (simp add: touch_def)

lemma touch_other:
  assumes "d \<noteq> c" and ks: "ks = pre @ c # rest" and "distinct pre" and "set pre \<subseteq> B"
    and "finite B" and "card (insert d B) < 128"
  shows "\<exists>pre' rest'. touch d ks = pre' @ c # rest' \<and> distinct pre' \<and> set pre' \<subseteq> insert d B"
proof -
  let ?pre = "d # filter (\<lambda>x. x \<noteq> d) pre"
  have dist: "distinct ?pre" using assms(3) by simp
  have sub: "set ?pre \<subseteq> insert d B" using assms(4) by auto
  have "length ?pre = card (set ?pre)" using dist by (simp only: distinct_card)
  also have "\<dots> \<le> card (insert d B)" using sub assms(5) by (intro card_mono) auto
  finally have len: "length ?pre < 128" using assms(6) by simp
  have "touch d ks = take 128 (?pre @ c # filter (\<lambda>x. x \<noteq> d) rest)"
    using assms(1) by (simp add: touch_def ks)
  also have "\<dots> = ?pre @ take (128 - length ?pre) (c # filter (\<lambda>x. x \<noteq> d) rest)"
    using len by (simp only: take_append) simp
  also have "\<dots> = ?pre @ c # take (127 - length ?pre) (filter (\<lambda>x. x \<noteq> d) rest)"
    using len by (simp add: take_Cons')
  finally show ?thesis using dist sub by blast
qed

lemma lru_keeps:
  "finite B \<Longrightarrow> card (B \<union> (set ds - {c})) < 128 \<Longrightarrow> keys st = pre @ c # rest
     \<Longrightarrow> distinct pre \<Longrightarrow> set pre \<subseteq> B \<Longrightarrow> length (entries st) \<le> 128
     \<Longrightarrow> c \<in> set (keys (lookups ds st))"
proof (induction ds arbitrary: st B pre rest)
  case Nil
  then show ?case by simp
next
  case (Cons d ds)
  let ?st = "snd (StatusText_get d st)"
  have keys': "keys ?st = touch d (keys st)" using Cons.prems(6) by (rule keys_get)
  have len': "length (entries ?st) \<le> 128" using Cons.prems(6) by (rule length_get)
  show ?case
  proof (cases "d = c")
    case True
    obtain rest' where k: "keys ?st = [] @ c # rest'"
      using touch_same [of c "keys st"] keys' True by auto
    have fin: "finite ({} :: int set)" by simp
    have "card ({} \<union> (set ds - {c})) \<le> card (B \<union> (set (d # ds) - {c}))"
      using Cons.prems(1) by (intro card_mono) auto
    then have c: "card ({} \<union> (set ds - {c})) < 128" using Cons.prems(2) by simp
    have "c \<in> set (keys (lookups ds ?st))"
      by (rule Cons.IH [OF fin c k _ _ len']) simp_all
    then show ?thesis by simp
  next
    case False
    have eq: "insert d B \<union> (set ds - {c}) = B \<union> (set (d # ds) - {c})" using False by auto
    have "card (insert d B) \<le> card (B \<union> (set (d # ds) - {c}))"
      using Cons.prems(1) False by (intro card_mono) auto
    then have cd: "card (insert d B) < 128" using Cons.prems(2) by simp
    obtain pre' rest' where k: "keys ?st = pre' @ c # rest'" and d: "distinct pre'"
      and s: "set pre' \<subseteq> insert d B"
      using touch_other [OF False Cons.prems(3) Cons.prems(4) Cons.prems(5) Cons.prems(1) cd] keys'
      by auto
    have fin: "finite (insert d B)" using Cons.prems(1) by simp
    have c: "card (insert d B \<union> (set ds - {c})) < 128" using Cons.prems(2) eq by simp
    have "c \<in> set (keys (lookups ds ?st))"
      by (rule Cons.IH [OF fin c k d s len'])
    then show ?thesis by simp
  qed
qed

lemma keys_after_distinct:
  "distinct ds \<Longrightarrow> length ds \<le> 128 \<Longrightarrow> length (entries st) \<le> 128
     \<Longrightarrow> take (length ds) (keys (lookups ds st)) = rev ds"
proof (induction ds rule: rev_induct)
  case Nil
  then show ?case by simp
next
  case (snoc d ds)
  let ?c = "lookups ds st"
  have ok: "length (entries ?c) \<le> 128"
    using snoc.prems(3) by (induction ds arbitrary: st) (auto simp: length_get)
  have ih: "take (length ds) (keys ?c) = rev ds" using snoc by simp
  then have "length (take (length ds) (keys ?c)) = length ds" by simp
  then have long: "length ds \<le> length (keys ?c)" by simp
  obtain tl where split: "keys ?c = rev ds @ tl"
    using ih append_take_drop_id [of "length ds" "keys ?c"] by metis
  have notin: "d \<notin> set ds" using snoc.prems(1) by simp
  have "keys (lookups (ds @ [d]) st) = touch d (keys ?c)"
    by (simp add: lookups_append keys_get [OF ok])
  also have "\<dots> = take 128 (d # rev ds @ filter (\<lambda>x. x \<noteq> d) tl)"
  proof -
    have "filter (\<lambda>x. x \<noteq> d) (rev ds) = rev ds" using notin by (auto simp: filter_id_conv)
    then show ?thesis unfolding touch_def split by (simp only: filter_append)
  qed
  finally have "take (length (ds @ [d])) (keys (lookups (ds @ [d]) st))
      = take (Suc (length ds)) (take 128 (d # rev ds @ filter (\<lambda>x. x \<noteq> d) tl))" by simp
  also have "\<dots> = take (Suc (length ds)) (d # rev ds @ filter (\<lambda>x. x \<noteq> d) tl)"
    using snoc.prems(2) by (simp only: take_take) (simp add: min_def)
  also have "\<dots> = rev (ds @ [d])" by simp
  finally show ?case .
qed

lemma distinct_phrases: "distinct (map fst phrases)"
  by (simp add: phrases_def)

lemma phrases_get_known: "(code, phrase) \<in> set phrases \<Longrightarrow> phrases_get code = phrase"
  using distinct_phrases by (simp add: phrases_get_def)

lemma phrases_get_unknown: "code \<notin> fst ` set phrases \<Longrightarrow> phrases_get code = ''Unknown Status Code''"
  by (simp add: phrases_get_def map_of_eq_None_iff [THEN iffD2])

lemma hit_after_few:
  assumes ok: "cache_ok c" and few: "card (set between - {code}) < 128"
  shows "code \<in> set (keys (lookups between (snd (StatusText_get code c))))"
proof -
  let ?c1 = "snd (StatusText_get code c)"
  have len: "length (entries c) \<le> 128" using ok by (simp add: cache_ok_def)
  obtain rest where k: "keys ?c1 = [] @ code # rest"
    using touch_same [of code "keys c"] keys_get [OF len, of code] by auto
  have c: "card ({} \<union> (set between - {code})) < 128" using few by simp
  show ?thesis
    by (rule lru_keeps [OF _ c k _ _ length_get [OF len]]) simp_all
qed

text \<open>
  Claim C6, amended. After any run of lookups, \<^verbatim>\<open>StatusText.get\<close> returns for a code
  of the table the phrase the table gives it and for every other integer
  \<^verbatim>\<open>Unknown Status Code\<close>. A repeated lookup of a code returns the same value, and as
  long as fewer than 128 distinct other codes have been looked up since the last lookup
  of that code, it is answered from the cache: the table lookup is not run again.
\<close>

theorem StatusText_get_memoized:
  "((code, phrase) \<in> set phrases \<longrightarrow>
      fst (StatusText_get code (lookups hist lru_empty)) = phrase) \<and>
   (code \<notin> fst ` set phrases \<longrightarrow>
      fst (StatusText_get code (lookups hist lru_empty)) = ''Unknown Status Code'') \<and>
   (card (set between - {code}) < 128 \<longrightarrow>
      fst (StatusText_get code
             (lookups between (snd (StatusText_get code (lookups hist lru_empty)))))
        = fst (StatusText_get code (lookups hist lru_empty)) \<and>
      misses (snd (StatusText_get code
                     (lookups between (snd (StatusText_get code (lookups hist lru_empty))))))
        = misses (lookups between (snd (StatusText_get code (lookups hist lru_empty)))))"
proof -
  let ?c = "lookups hist lru_empty"
  let ?c2 = "lookups between (snd (StatusText_get code ?c))"
  have ok: "cache_ok ?c" by (simp add: cache_ok_lookups cache_ok_empty)
  then have ok2: "cache_ok ?c2" by (simp add: cache_ok_lookups cache_ok_get)
  have v: "fst (StatusText_get code ?c) = phrases_get code" using ok by (rule fst_get)
  have v2: "fst (StatusText_get code ?c2) = phrases_get code" using ok2 by (rule fst_get)
  have hit: "misses (snd (StatusText_get code ?c2)) = misses ?c2"
    if "card (set between - {code}) < 128"
    using hit_after_few [OF ok that] by (simp add: misses_get)
  show ?thesis
    using v v2 hit by (simp add: phrases_get_known phrases_get_unknown)
qed

theorem StatusText_get_memoized_witness:
  "fst (StatusText_get 404 (lookups [200] lru_empty)) = ''Not Found'' \<and>
   fst (StatusText_get 999 (lookups [200] lru_empty)) = ''Unknown Status Code'' \<and>
   fst (StatusText_get 404
          (lookups [500, 200] (snd (StatusText_get 404 (lookups [200] lru_empty)))))
     = fst (StatusText_get 404 (lookups [200] lru_empty)) \<and>
   misses (snd (StatusText_get 404
                  (lookups [500, 200] (snd (StatusText_get 404 (lookups [200] lru_empty))))))
     = misses (lookups [500, 200] (snd (StatusText_get 404 (lookups [200] lru_empty))))"
proof -
  have a: "(404, ''Not Found'') \<in> set phrases" by (simp add: phrases_def)
  have b: "999 \<notin> fst ` set phrases" by (simp add: phrases_def)
  have c: "card (set [500, 200 :: int] - {404}) < 128" by simp
  show ?thesis
    using a b c
      StatusText_get_memoized [of 404 "''Not Found''" "[200]" "[500, 200]"]
      StatusText_get_memoized [of 999 "''Not Found''" "[200]" "[500, 200]"]
    by blast
qed

text \<open>
  Claim C6, as stated, fails: after the first lookup of 200 and lookups of the 128 codes
  from 1000 to 1127, the entry for 200 has been evicted, and the next lookup of 200 runs
  the table lookup again.
\<close>

theorem StatusText_get_recomputes_after_eviction:
  "misses (snd (StatusText_get 200
                  (lookups [1000..1127] (snd (StatusText_get 200 lru_empty)))))
     = Suc (misses (lookups [1000..1127] (snd (StatusText_get 200 lru_empty))))"
proof -
  let ?c1 = "snd (StatusText_get 200 lru_empty)"
  let ?c2 = "lookups [1000..1127] ?c1"
  have ok1: "cache_ok ?c1" by (simp add: cache_ok_get cache_ok_empty)
  then have len1: "length (entries ?c1) \<le> 128" by (simp add: cache_ok_def)
  have "cache_ok ?c2" using ok1 by (rule cache_ok_lookups)
  then have len2: "length (keys ?c2) \<le> 128" by (simp add: cache_ok_def keys_def)
  have n: "length [1000..1127::int] = 128" by simp
  have "take (length [1000..1127::int]) (keys ?c2) = rev [1000..1127]"
    by (rule keys_after_distinct [OF _ _ len1]) (simp_all only: distinct_upto n order_refl)
  then have "keys ?c2 = rev [1000..1127]" using len2 by (simp only: n take_all)
  then have "200 \<notin> set (keys ?c2)" by simp
  then show ?thesis by (simp add: misses_get)
qed

end
